theory Spec2Isabelle
  imports Main
begin

section \<open>The insights middleware of InstantSearch.js\<close>

text \<open>
  A shallow embedding of \<^verbatim>\<open>createInsightsMiddleware\<close>
  (\<^verbatim>\<open>src/middlewares/createInsightsMiddleware.ts\<close>). The middleware is a closure over a
  few mutable variables that talks to three collaborators: the analytics client
  (a callable value, possibly carrying a \<^verbatim>\<open>queue\<close>), the search helper (the session
  state) and the hosting InstantSearch instance. The closure variables, the collaborators'
  state and a chronological trace of the calls made to the collaborators are threaded
  through every operation as one record.
\<close>

subsection \<open>JavaScript values\<close>

text \<open>
  A value of type \<^verbatim>\<open>string | undefined\<close> is a \<open>string option\<close>; it is truthy when it
  is a non-empty string.
\<close>

definition truthy :: "string option \<Rightarrow> bool" where
  "truthy v = (case v of None \<Rightarrow> False | Some s \<Rightarrow> s \<noteq> [])"

subsection \<open>Data\<close>

text \<open>
  The search parameters held by the helper. Only \<^verbatim>\<open>userToken\<close> and \<^verbatim>\<open>clickAnalytics\<close>
  are read or written by the middleware; every other parameter is carried in \<open>other\<close>.
\<close>

record search_parameters =
  userToken :: "string option"
  clickAnalytics :: "bool option"
  other :: "(string \<times> string) list"

text \<open>The object literal stored in \<^verbatim>\<open>initialParameters\<close> by \<^verbatim>\<open>started()\<close>.\<close>

record initial_parameters =
  init_userToken :: "string option"
  init_clickAnalytics :: "bool option"

text \<open>\<^verbatim>\<open>InsightsEvent\<close>; the payload (\<^verbatim>\<open>any\<close>) and the hits are kept opaque.\<close>

record insights_event =
  insightsMethod :: "string option"
  payload :: string
  widgetType :: string
  eventType :: string
  hits :: "string list option"
  attribute :: "string option"

datatype region = DE | US

record insights_init_params =
  userHasOptedOut :: "bool option"
  useCookie :: "bool option"
  cookieDuration :: "int option"
  region :: "region option"

text \<open>
  The calls the middleware makes on the analytics client, one constructor per call site:
  \<^verbatim>\<open>('getUserToken', null, cb)\<close>, \<^verbatim>\<open>('init', {appId, apiKey, ...insightsInitParams})\<close>,
  \<^verbatim>\<open>('addAlgoliaAgent', s)\<close>, \<^verbatim>\<open>('setUserToken', t)\<close>,
  \<^verbatim>\<open>('onUserTokenChange', listener, options)\<close> and \<^verbatim>\<open>(event.insightsMethod, event.payload)\<close>.
\<close>

datatype listener = SetUserTokenToSearch

datatype insights_call =
    GetUserToken
  | Init "string option" "string option" "insights_init_params option"
  | AddAlgoliaAgent string
  | SetUserToken "string option"
  | OnUserTokenChange "listener option" "bool option"
  | SendEvent "string option" string

text \<open>
  The two callbacks the middleware hands to the client: the callback of
  \<^verbatim>\<open>getUserToken\<close>, called with \<^verbatim>\<open>(_error, userToken)\<close>, and the listener
  \<^verbatim>\<open>setUserTokenToSearch\<close>, called with a token.
\<close>

datatype callback_call =
    GetUserTokenCallback "string option"
  | UserTokenChange "string option"

text \<open>
  The analytics client is an external collaborator, so it is a parameter: a state of any
  type \<open>'c\<close>, the \<^verbatim>\<open>queue\<close> property it exposes in that state (\<open>None\<close> when the property
  is not an array; an entry \<^verbatim>\<open>[method, ...args]\<close> is a list of strings), what it does
  when called (its next state and the callbacks it invokes before returning), and the
  error its \<^verbatim>\<open>init\<close> throws, if any, for the application id, the API key and the init
  parameters it is given: the comment at line 65 relies on \<^verbatim>\<open>init\<close> throwing when the
  credentials are missing.
\<close>

record 'c insights_client =
  queue :: "'c \<Rightarrow> string list list option"
  respond :: "'c \<Rightarrow> insights_call \<Rightarrow> 'c \<times> callback_call list"
  init_throws ::
    "'c \<Rightarrow> string option \<Rightarrow> string option \<Rightarrow> insights_init_params option \<Rightarrow> string option"

text \<open>The \<^verbatim>\<open>insightsClient\<close> option as the caller passes it.\<close>

datatype 'c client_option = Undefined | Null | Client "'c insights_client"

text \<open>The caller's \<^verbatim>\<open>onEvent\<close> function, by name; calling it is recorded as an effect.\<close>

type_synonym handler = string

record 'c insights_props =
  props_insightsClient :: "'c client_option"
  props_insightsInitParams :: "insights_init_params option"
  props_onEvent :: "handler option"

text \<open>The function bound to the variable \<^verbatim>\<open>insightsClient\<close>: \<^verbatim>\<open>noop\<close> or the caller's client.\<close>

datatype 'c effective_client = Noop | UserClient "'c insights_client"

datatype callee = NoopFn | ClientFn

datatype client_ref = UndefinedRef | NullRef | ClientRef

datatype effect =
    InsightsCall callee insights_call
  | HelperOverride search_parameters
  | HelperSetState search_parameters
  | ScheduleSearch
  | Warning string
  | OnEventCall handler insights_event client_ref

datatype error = Error string

datatype slot = NoopSlot | Gateway

text \<open>
  What \<^verbatim>\<open>createInsightsMiddleware(props)\<close> closes over: the build constant \<^verbatim>\<open>__DEV__\<close>,
  \<^verbatim>\<open>_insightsClient\<close>, \<^verbatim>\<open>hasInsightsClient\<close>, \<^verbatim>\<open>insightsClient\<close>, \<^verbatim>\<open>insightsInitParams\<close>
  and \<^verbatim>\<open>onEvent\<close>.
\<close>

record 'c middleware =
  DEV :: bool
  raw_insightsClient :: "'c client_option"
  hasInsightsClient :: bool
  insightsClient :: "'c effective_client"
  insightsInitParams :: "insights_init_params option"
  onEvent :: "handler option"

text \<open>
  The mutable state: the collaborators (the credentials that
  \<^verbatim>\<open>getAppIdAndApiKey(instantSearchInstance.client)\<close> returns, the token that
  \<^verbatim>\<open>getInsightsAnonymousUserTokenInternal()\<close> returns, the helper's state, the client's
  state, the instance's \<^verbatim>\<open>sendEventToInsights\<close> slot), the closure variables
  (\<^verbatim>\<open>queuedUserToken\<close>, \<^verbatim>\<open>userTokenBeforeInit\<close>, \<^verbatim>\<open>initialParameters\<close>, and whether
  \<^verbatim>\<open>helper\<close> has been assigned) and the trace of effects, oldest first.
  The instance is assumed to have its helper when \<^verbatim>\<open>started()\<close> runs
  (\<^verbatim>\<open>instantSearchInstance.helper!\<close>). Apart from the client's \<^verbatim>\<open>init\<close>, the collaborators
  are assumed not to throw.
\<close>

record 'c world =
  credentials :: "string option \<times> string option"
  anonymousUserToken :: "string option"
  helper_state :: search_parameters
  client_state :: 'c
  sendEventToInsights_slot :: slot
  queuedUserToken :: "string option"
  userTokenBeforeInit :: "string option"
  initialParameters :: "initial_parameters option"
  helper :: bool
  trace :: "effect list"

subsection \<open>Collaborator primitives\<close>

definition emit :: "effect \<Rightarrow> 'c world \<Rightarrow> 'c world" where
  "emit e w = w\<lparr>trace := trace w @ [e]\<rparr>"

text \<open>
  Modelled from the spec: the helper's \<^verbatim>\<open>overrideStateWithoutTriggeringChangeEvent(newState)\<close>
  writes the state without notification and \<^verbatim>\<open>setState(newState)\<close> writes it with
  notification; \<^verbatim>\<open>scheduleSearch()\<close> requests a search; \<^verbatim>\<open>warning(false, message)\<close> emits
  one non-fatal warning. Each is recorded in the trace.
\<close>

definition overrideStateWithoutTriggeringChangeEvent ::
    "search_parameters \<Rightarrow> 'c world \<Rightarrow> 'c world" where
  "overrideStateWithoutTriggeringChangeEvent st w =
     emit (HelperOverride st) (w\<lparr>helper_state := st\<rparr>)"

definition setState :: "search_parameters \<Rightarrow> 'c world \<Rightarrow> 'c world" where
  "setState st w = emit (HelperSetState st) (w\<lparr>helper_state := st\<rparr>)"

definition scheduleSearch :: "'c world \<Rightarrow> 'c world" where
  "scheduleSearch w = emit ScheduleSearch w"

definition warning :: "string \<Rightarrow> 'c world \<Rightarrow> 'c world" where
  "warning msg w = emit (Warning msg) w"

subsection \<open>The callbacks\<close>

text \<open>\<^verbatim>\<open>setUserTokenToSearch\<close> (lines 124-131).\<close>

definition setUserTokenToSearch :: "string option \<Rightarrow> 'c world \<Rightarrow> 'c world" where
  "setUserTokenToSearch t w =
     scheduleSearch
       (overrideStateWithoutTriggeringChangeEvent ((helper_state w)\<lparr>userToken := t\<rparr>) w)"

text \<open>
  A callback invoked by the client. The \<^verbatim>\<open>getUserToken\<close> callback (lines 92-99) stores its
  argument. The listener exists only once \<^verbatim>\<open>started()\<close> has created it, which is after
  \<^verbatim>\<open>helper\<close> was assigned; a client that was never given it has nothing to call. From then
  on the client may call it at any of its turns, which covers every client that calls
  only a listener it has been given. A callback that the client invokes later, between
  two operations of the middleware, is \<open>deliver\<close> applied to the world of that moment.
\<close>

fun deliver :: "callback_call \<Rightarrow> 'c world \<Rightarrow> 'c world" where
  "deliver (GetUserTokenCallback t) w = w\<lparr>userTokenBeforeInit := t\<rparr>"
| "deliver (UserTokenChange t) w = (if helper w then setUserTokenToSearch t w else w)"

text \<open>
  Modelled from the spec: \<^verbatim>\<open>noop\<close> (from \<^verbatim>\<open>lib/utils\<close>, not among the sources) is the
  function with an empty body. A call \<^verbatim>\<open>insightsClient(...)\<close> is recorded in the trace with
  the function it reaches; \<^verbatim>\<open>noop\<close> does nothing, the caller's client moves to its next
  state and the callbacks it invokes run in order.
\<close>

definition call_insights :: "'c effective_client \<Rightarrow> insights_call \<Rightarrow> 'c world \<Rightarrow> 'c world" where
  "call_insights cl c w =
     (case cl of
        Noop \<Rightarrow> emit (InsightsCall NoopFn c) w
      | UserClient impl \<Rightarrow>
          (case respond impl (client_state w) c of
             (s', cbs) \<Rightarrow>
               fold deliver cbs (emit (InsightsCall ClientFn c) (w\<lparr>client_state := s'\<rparr>))))"

subsection \<open>Construction (lines 38-60)\<close>

definition props_or_empty :: "'c insights_props option \<Rightarrow> 'c insights_props" where
  "props_or_empty props =
     (case props of
        None \<Rightarrow> \<lparr>props_insightsClient = Undefined, props_insightsInitParams = None,
                 props_onEvent = None\<rparr>
      | Some p \<Rightarrow> p)"

definition createInsightsMiddleware ::
    "bool \<Rightarrow> 'c insights_props option \<Rightarrow> error + 'c middleware" where
  "createInsightsMiddleware dev props =
     (let p = props_or_empty props in
      case props_insightsClient p of
        Undefined \<Rightarrow>
          (if dev
           then Inl (Error ''The `insightsClient` option is required if you want userToken to be automatically set in search calls. If you don't want this behaviour, set it to `null`.'')
           else Inl (Error ''The `insightsClient` option is required. To disable, set it to `null`.''))
      | Null \<Rightarrow>
          Inr \<lparr>DEV = dev, raw_insightsClient = Null, hasInsightsClient = False,
               insightsClient = Noop, insightsInitParams = props_insightsInitParams p,
               onEvent = props_onEvent p\<rparr>
      | Client impl \<Rightarrow>
          Inr \<lparr>DEV = dev, raw_insightsClient = Client impl, hasInsightsClient = True,
               insightsClient = UserClient impl, insightsInitParams = props_insightsInitParams p,
               onEvent = props_onEvent p\<rparr>)"

subsection \<open>Setup for an instance (lines 62-103)\<close>

text \<open>
  The queue scan of lines 75-91. An entry is the array \<^verbatim>\<open>[method, ...args]\<close>;
  \<^verbatim>\<open>([method]) => ...\<close> reads its first element and \<^verbatim>\<open>[, queuedUserToken] = ...\<close> its second,
  each \<^verbatim>\<open>undefined\<close> when the entry is too short.
  Modelled from the spec: \<^verbatim>\<open>find\<close> (from \<^verbatim>\<open>lib/utils\<close>, not among the sources) returns
  the first element that satisfies the predicate, and \<^verbatim>\<open>undefined\<close> when there is none.
\<close>

definition entry_method :: "string list \<Rightarrow> string option" where
  "entry_method e = (case e of [] \<Rightarrow> None | m # _ \<Rightarrow> Some m)"

definition entry_second :: "string list \<Rightarrow> string option" where
  "entry_second e = (case e of _ # t # _ \<Rightarrow> Some t | _ \<Rightarrow> None)"

definition is_setUserToken :: "string list \<Rightarrow> bool" where
  "is_setUserToken e = (entry_method e = Some ''setUserToken'')"

definition read_queuedUserToken :: "string list list option \<Rightarrow> string option" where
  "read_queuedUserToken q =
     (case q of
        None \<Rightarrow> None
      | Some es \<Rightarrow>
          (case find is_setUserToken (rev es) of
             None \<Rightarrow> None
           | Some e \<Rightarrow> entry_second e))"

definition client_queue :: "'c effective_client \<Rightarrow> 'c \<Rightarrow> string list list option" where
  "client_queue cl s = (case cl of Noop \<Rightarrow> None | UserClient impl \<Rightarrow> queue impl s)"

text \<open>
  Lines 72-99: the closure variables are declared, the queue is read and
  \<^verbatim>\<open>getUserToken\<close> is called.
\<close>

definition before_init :: "'c middleware \<Rightarrow> 'c world \<Rightarrow> 'c world" where
  "before_init mw w =
     call_insights (insightsClient mw) GetUserToken
       (w\<lparr>queuedUserToken :=
            read_queuedUserToken (client_queue (insightsClient mw) (client_state w)),
          userTokenBeforeInit := None,
          initialParameters := None,
          helper := False\<rparr>)"

text \<open>What the call of \<^verbatim>\<open>init\<close> at line 100 throws; \<^verbatim>\<open>noop\<close> never throws.\<close>

definition client_init_throws ::
    "'c effective_client \<Rightarrow> 'c \<Rightarrow> string option \<Rightarrow> string option \<Rightarrow>
     insights_init_params option \<Rightarrow> string option" where
  "client_init_throws cl s appId apiKey params =
     (case cl of Noop \<Rightarrow> None | UserClient impl \<Rightarrow> init_throws impl s appId apiKey params)"

text \<open>
  The function that \<^verbatim>\<open>createInsightsMiddleware\<close> returns, applied to the instance. Nothing
  catches an error thrown by \<^verbatim>\<open>init\<close>, so it leaves the function.
\<close>

definition middleware_setup :: "'c middleware \<Rightarrow> 'c world \<Rightarrow> error + 'c world" where
  "middleware_setup mw w =
     (case credentials w of
        (appId, apiKey) \<Rightarrow>
          if DEV mw \<and> \<not> (truthy appId \<and> truthy apiKey)
          then Inl (Error ''[insights middleware]: could not extract Algolia credentials from searchClient'')
          else
            let w2 = before_init mw w in
            (case client_init_throws (insightsClient mw) (client_state w2) appId apiKey
                    (insightsInitParams mw) of
               Some msg \<Rightarrow> Inl (Error msg)
             | None \<Rightarrow>
                 Inr (call_insights (insightsClient mw)
                        (Init appId apiKey (insightsInitParams mw)) w2)))"

subsection \<open>The lifecycle hooks (lines 105-192)\<close>

definition client_ref_of :: "'c client_option \<Rightarrow> client_ref" where
  "client_ref_of c = (case c of Undefined \<Rightarrow> UndefinedRef | Null \<Rightarrow> NullRef | Client _ \<Rightarrow> ClientRef)"

definition callee_of :: "'c effective_client \<Rightarrow> callee" where
  "callee_of cl = (case cl of Noop \<Rightarrow> NoopFn | UserClient _ \<Rightarrow> ClientFn)"

definition no_userToken_message :: string where
  "no_userToken_message =
     [CHR 0x0A] @ ''Cannot send event to Algolia Insights because `userToken` is not set.''
     @ [CHR 0x0A, CHR 0x0A]
     @ ''See documentation: https://www.algolia.com/doc/guides/building-search-ui/going-further/send-insights-events/js/#setting-the-usertoken''
     @ [CHR 0x0A]"

definition no_insightsMethod_message :: string where
  "no_insightsMethod_message =
     ''Cannot send event to Algolia Insights because `insightsMethod` option is missing.''"

text \<open>The function installed in the \<^verbatim>\<open>sendEventToInsights\<close> slot (lines 153-178).\<close>

definition sendEventToInsights :: "'c middleware \<Rightarrow> insights_event \<Rightarrow> 'c world \<Rightarrow> 'c world" where
  "sendEventToInsights mw event w =
     (case onEvent mw of
        Some h \<Rightarrow> emit (OnEventCall h event (client_ref_of (raw_insightsClient mw))) w
      | None \<Rightarrow>
          if truthy (insightsMethod event) then
            (if truthy (userToken (helper_state w))
             then call_insights (insightsClient mw)
                    (SendEvent (insightsMethod event) (payload event)) w
             else warning no_userToken_message w)
          else warning no_insightsMethod_message w)"

text \<open>
  \<^verbatim>\<open>started()\<close> (lines 108-179), one definition per statement group: the snapshot of
  lines 113-116, the override of lines 118-122, the anonymous token of lines 133-138 and
  the \<^verbatim>\<open>setUserToken\<close> call of lines 140-146.
\<close>

definition capture_initialParameters :: "'c world \<Rightarrow> 'c world" where
  "capture_initialParameters w =
     w\<lparr>initialParameters :=
         Some \<lparr>init_userToken = userToken (helper_state w),
               init_clickAnalytics = clickAnalytics (helper_state w)\<rparr>\<rparr>"

definition enable_clickAnalytics :: "'c world \<Rightarrow> 'c world" where
  "enable_clickAnalytics w =
     scheduleSearch
       (overrideStateWithoutTriggeringChangeEvent
          ((helper_state w)\<lparr>clickAnalytics := Some True\<rparr>) w)"

definition apply_anonymousUserToken :: "'c middleware \<Rightarrow> 'c world \<Rightarrow> 'c world" where
  "apply_anonymousUserToken mw w =
     (if hasInsightsClient mw \<and> truthy (anonymousUserToken w)
      then setUserTokenToSearch (anonymousUserToken w) w
      else w)"

definition forward_userToken :: "'c middleware \<Rightarrow> 'c world \<Rightarrow> 'c world" where
  "forward_userToken mw w =
     (if truthy (userTokenBeforeInit w)
      then call_insights (insightsClient mw) (SetUserToken (userTokenBeforeInit w)) w
      else if truthy (queuedUserToken w)
      then call_insights (insightsClient mw) (SetUserToken (queuedUserToken w)) w
      else w)"

definition started :: "'c middleware \<Rightarrow> 'c world \<Rightarrow> 'c world" where
  "started mw w =
     (let w1 = call_insights (insightsClient mw) (AddAlgoliaAgent ''insights-middleware'') w;
          w2 = w1\<lparr>helper := True\<rparr>;
          w3 = capture_initialParameters w2;
          w4 = enable_clickAnalytics w3;
          w5 = apply_anonymousUserToken mw w4;
          w6 = forward_userToken mw w5;
          w7 = call_insights (insightsClient mw)
                 (OnUserTokenChange (Some SetUserTokenToSearch) (Some True)) w6
      in w7\<lparr>sendEventToInsights_slot := Gateway\<rparr>)"

text \<open>\<^verbatim>\<open>unsubscribe()\<close> (lines 180-191); the conditional of lines 183-190 is on its own.\<close>

definition restore_initialParameters :: "'c world \<Rightarrow> 'c world" where
  "restore_initialParameters w =
     (if helper w then
        (case initialParameters w of
           None \<Rightarrow> w
         | Some ip \<Rightarrow>
             scheduleSearch
               (setState ((helper_state w)\<lparr>userToken := init_userToken ip,
                                           clickAnalytics := init_clickAnalytics ip\<rparr>) w))
      else w)"

definition unsubscribe :: "'c middleware \<Rightarrow> 'c world \<Rightarrow> 'c world" where
  "unsubscribe mw w =
     (let w1 = call_insights (insightsClient mw) (OnUserTokenChange None None) w;
          w2 = w1\<lparr>sendEventToInsights_slot := NoopSlot\<rparr>
      in restore_initialParameters w2)"

definition onStateChange :: "'c world \<Rightarrow> 'c world" where
  "onStateChange w = w"

definition subscribe :: "'c world \<Rightarrow> 'c world" where
  "subscribe w = w"

text \<open>
  A widget calling \<^verbatim>\<open>instantSearchInstance.sendEventToInsights(event)\<close>: whatever function is
  in the slot runs; \<^verbatim>\<open>noop\<close> has an empty body.
\<close>

definition invoke_sendEventToInsights ::
    "'c middleware \<Rightarrow> insights_event \<Rightarrow> 'c world \<Rightarrow> 'c world" where
  "invoke_sendEventToInsights mw event w =
     (case sendEventToInsights_slot w of
        NoopSlot \<Rightarrow> w
      | Gateway \<Rightarrow> sendEventToInsights mw event w)"

text \<open>
  How the hosting instance uses the middleware: \<^verbatim>\<open>createInsightsMiddleware(props)\<close>, then the
  returned function applied to \<^verbatim>\<open>{ instantSearchInstance }\<close>. Either step may throw.
\<close>

definition install ::
    "bool \<Rightarrow> 'c insights_props option \<Rightarrow> 'c world \<Rightarrow> error + ('c middleware \<times> 'c world)" where
  "install dev props w =
     (case createInsightsMiddleware dev props of
        Inl e \<Rightarrow> Inl e
      | Inr mw \<Rightarrow>
          (case middleware_setup mw w of
             Inl e \<Rightarrow> Inl e
           | Inr w' \<Rightarrow> Inr (mw, w')))"

subsection \<open>Reading the trace\<close>

text \<open>The effects an operation added to the trace.\<close>

definition effects_since :: "'c world \<Rightarrow> 'c world \<Rightarrow> effect list" where
  "effects_since w w' = drop (length (trace w)) (trace w')"

text \<open>
  A trace is well paired when it has no notifying write (\<^verbatim>\<open>setState\<close>), every non-notifying
  override is immediately followed by a \<^verbatim>\<open>scheduleSearch\<close>, and there is no other
  \<^verbatim>\<open>scheduleSearch\<close>.
\<close>

fun well_paired :: "effect list \<Rightarrow> bool" where
  "well_paired [] = True"
| "well_paired (HelperOverride st # ScheduleSearch # r) = well_paired r"
| "well_paired (HelperOverride st # r) = False"
| "well_paired (HelperSetState st # r) = False"
| "well_paired (ScheduleSearch # r) = False"
| "well_paired (e # r) = well_paired r"

text \<open>What runs of the listener leave in the trace: override and search, in pairs.\<close>

fun listener_effects :: "effect list \<Rightarrow> bool" where
  "listener_effects [] = True"
| "listener_effects (HelperOverride st # ScheduleSearch # r) = listener_effects r"
| "listener_effects (e # r) = False"

text \<open>The session state that results from the writes recorded in a trace.\<close>

fun replay :: "effect list \<Rightarrow> search_parameters \<Rightarrow> search_parameters" where
  "replay [] st = st"
| "replay (HelperOverride st' # r) st = replay r st'"
| "replay (HelperSetState st' # r) st = replay r st'"
| "replay (e # r) st = replay r st"

fun is_notification :: "effect \<Rightarrow> bool" where
  "is_notification (HelperSetState st) = True"
| "is_notification e = False"

fun is_override :: "effect \<Rightarrow> bool" where
  "is_override (HelperOverride st) = True"
| "is_override e = False"

fun insights_calls :: "effect list \<Rightarrow> (callee \<times> insights_call) list" where
  "insights_calls [] = []"
| "insights_calls (InsightsCall f c # r) = (f, c) # insights_calls r"
| "insights_calls (e # r) = insights_calls r"

fun warnings :: "effect list \<Rightarrow> string list" where
  "warnings [] = []"
| "warnings (Warning m # r) = m # warnings r"
| "warnings (e # r) = warnings r"

fun handler_calls :: "effect list \<Rightarrow> (handler \<times> insights_event \<times> client_ref) list" where
  "handler_calls [] = []"
| "handler_calls (OnEventCall h ev r # es) = (h, ev, r) # handler_calls es"
| "handler_calls (e # es) = handler_calls es"

text \<open>
  \<open>w'\<close> continues \<open>w\<close> with a well-paired trace in which every change of the session state
  is recorded.
\<close>

definition extends_paired :: "'c world \<Rightarrow> 'c world \<Rightarrow> bool" where
  "extends_paired w w' =
     (\<exists>d. trace w' = trace w @ d \<and> well_paired d \<and>
          helper_state w' = replay d (helper_state w))"

subsection \<open>Example collaborators\<close>

text \<open>
  The analytics client before its library has loaded (the situation described at lines
  76-85): a call is stored in the queue and no callback runs.
\<close>

fun call_entry :: "insights_call \<Rightarrow> string list" where
  "call_entry GetUserToken = [''getUserToken'']"
| "call_entry (Init a k p) = [''init'']"
| "call_entry (AddAlgoliaAgent s) = [''addAlgoliaAgent'', s]"
| "call_entry (SetUserToken t) = ''setUserToken'' # (case t of None \<Rightarrow> [] | Some s \<Rightarrow> [s])"
| "call_entry (OnUserTokenChange l opt) = [''onUserTokenChange'']"
| "call_entry (SendEvent m p) = (case m of None \<Rightarrow> [] | Some s \<Rightarrow> [s]) @ [p]"

definition snippet_client :: "string list list insights_client" where
  "snippet_client =
     \<lparr>queue = (\<lambda>q. Some q), respond = (\<lambda>q c. (q @ [call_entry c], [])),
      init_throws = (\<lambda>q appId apiKey params. None)\<rparr>"

text \<open>
  A loaded client without a queue, as the spec describes the collaborator: it keeps the
  current token, answers \<^verbatim>\<open>getUserToken\<close> at once, tells a registered listener about
  \<^verbatim>\<open>setUserToken\<close>, and delivers the current value on registration with \<^verbatim>\<open>immediate\<close>.
  Its \<^verbatim>\<open>init\<close> throws when the application id or the API key is missing or empty, as the
  comment at line 65 says of the library.
\<close>

record loaded_state =
  current_token :: "string option"
  listening :: bool

definition loaded_respond ::
    "loaded_state \<Rightarrow> insights_call \<Rightarrow> loaded_state \<times> callback_call list" where
  "loaded_respond s c =
     (case c of
        GetUserToken \<Rightarrow> (s, [GetUserTokenCallback (current_token s)])
      | SetUserToken t \<Rightarrow>
          (s\<lparr>current_token := t\<rparr>, if listening s then [UserTokenChange t] else [])
      | OnUserTokenChange l opt \<Rightarrow>
          (s\<lparr>listening := (l \<noteq> None)\<rparr>,
           if l \<noteq> None \<and> opt = Some True then [UserTokenChange (current_token s)] else [])
      | _ \<Rightarrow> (s, []))"

definition loaded_init_throws ::
    "string option \<Rightarrow> string option \<Rightarrow> string option" where
  "loaded_init_throws appId apiKey =
     (if truthy appId \<and> truthy apiKey then None
      else Some ''init: the appId or the apiKey is missing'')"

definition loaded_client :: "loaded_state insights_client" where
  "loaded_client =
     \<lparr>queue = (\<lambda>s. None), respond = loaded_respond,
      init_throws = (\<lambda>s appId apiKey params. loaded_init_throws appId apiKey)\<rparr>"

definition client_props :: "'c insights_client \<Rightarrow> handler option \<Rightarrow> 'c insights_props" where
  "client_props impl h =
     \<lparr>props_insightsClient = Client impl, props_insightsInitParams = None, props_onEvent = h\<rparr>"

definition null_props :: "'c insights_props" where
  "null_props =
     \<lparr>props_insightsClient = Null, props_insightsInitParams = None, props_onEvent = None\<rparr>"

definition client_middleware ::
    "bool \<Rightarrow> 'c insights_client \<Rightarrow> handler option \<Rightarrow> 'c middleware" where
  "client_middleware dev impl h =
     \<lparr>DEV = dev, raw_insightsClient = Client impl, hasInsightsClient = True,
      insightsClient = UserClient impl, insightsInitParams = None, onEvent = h\<rparr>"

definition disabled_middleware :: "bool \<Rightarrow> 'c middleware" where
  "disabled_middleware dev =
     \<lparr>DEV = dev, raw_insightsClient = Null, hasInsightsClient = False,
      insightsClient = Noop, insightsInitParams = None, onEvent = None\<rparr>"

definition fresh_world ::
    "string option \<times> string option \<Rightarrow> search_parameters \<Rightarrow> 'c \<Rightarrow> 'c world" where
  "fresh_world creds st s =
     \<lparr>credentials = creds, anonymousUserToken = None, helper_state = st, client_state = s,
      sendEventToInsights_slot = NoopSlot, queuedUserToken = None, userTokenBeforeInit = None,
      initialParameters = None, helper = False, trace = []\<rparr>"

definition no_parameters :: search_parameters where
  "no_parameters = \<lparr>userToken = None, clickAnalytics = None, other = []\<rparr>"

definition u0_parameters :: search_parameters where
  "u0_parameters = \<lparr>userToken = Some ''u0'', clickAnalytics = Some False, other = []\<rparr>"

definition click_without_method :: insights_event where
  "click_without_method =
     \<lparr>insightsMethod = None, payload = ''{}'', widgetType = ''hits'', eventType = ''click'',
      hits = None, attribute = None\<rparr>"

definition click_event :: insights_event where
  "click_event =
     \<lparr>insightsMethod = Some ''clickedObjectIDs'', payload = ''{objectIDs}'',
      widgetType = ''hits'', eventType = ''click'', hits = None, attribute = None\<rparr>"

text \<open>The world after the setup of the unloaded client whose queue holds one token.\<close>

definition snippet_after_setup :: "string list list world" where
  "snippet_after_setup =
     \<lparr>credentials = (Some ''app'', Some ''key''), anonymousUserToken = None,
      helper_state = no_parameters,
      client_state = [[''setUserToken'', ''q''], [''getUserToken''], [''init'']],
      sendEventToInsights_slot = NoopSlot, queuedUserToken = Some ''q'',
      userTokenBeforeInit = None, initialParameters = None, helper = False,
      trace = [InsightsCall ClientFn GetUserToken,
               InsightsCall ClientFn (Init (Some ''app'') (Some ''key'') None)]\<rparr>"

text \<open>A started world: the gateway is installed and a snapshot is held.\<close>

definition started_world :: "string option \<Rightarrow> 'c \<Rightarrow> 'c world" where
  "started_world tok s =
     \<lparr>credentials = (Some ''app'', Some ''key''), anonymousUserToken = None,
      helper_state = \<lparr>userToken = tok, clickAnalytics = Some True, other = []\<rparr>,
      client_state = s, sendEventToInsights_slot = Gateway, queuedUserToken = None,
      userTokenBeforeInit = None,
      initialParameters = Some \<lparr>init_userToken = Some ''u0'', init_clickAnalytics = Some False\<rparr>,
      helper = True, trace = []\<rparr>"

text \<open>
  \<^verbatim>\<open>helper\<close> and \<^verbatim>\<open>initialParameters\<close> are assigned together: setup leaves both unset,
  \<^verbatim>\<open>started()\<close> sets both, and nothing else writes either.
\<close>

definition snapshot_consistent :: "'c world \<Rightarrow> bool" where
  "snapshot_consistent w = (helper w = (initialParameters w \<noteq> None))"

section \<open>Basic facts\<close>

subsection \<open>Traces\<close>

lemma well_paired_append: "well_paired a \<Longrightarrow> well_paired b \<Longrightarrow> well_paired (a @ b)"
  by (induction a rule: well_paired.induct) auto

lemma listener_effects_append:
  "listener_effects a \<Longrightarrow> listener_effects b \<Longrightarrow> listener_effects (a @ b)"
  by (induction a rule: listener_effects.induct) auto

lemma listener_effects_well_paired: "listener_effects a \<Longrightarrow> well_paired a"
  by (induction a rule: listener_effects.induct) auto

lemma listener_effects_silent:
  "listener_effects d \<Longrightarrow> insights_calls d = [] \<and> warnings d = [] \<and> handler_calls d = []"
  by (induction d rule: listener_effects.induct) auto

lemma well_paired_counts:
  "well_paired d \<Longrightarrow> filter is_notification d = [] \<and>
     length (filter is_override d) = length (filter (\<lambda>e. e = ScheduleSearch) d)"
  by (induction d rule: well_paired.induct) auto

lemma replay_append: "replay (a @ b) st = replay b (replay a st)"
  by (induction a st rule: replay.induct) auto

lemma effects_since_same: "effects_since w w = []"
  by (simp add: effects_since_def)

subsection \<open>Finding the last match\<close>

lemma find_append_split:
  "find P (xs @ ys) = (case find P xs of None \<Rightarrow> find P ys | Some x \<Rightarrow> Some x)"
  by (induction xs) simp_all

lemma find_rev_last_match:
  assumes "P e" and "\<forall>x\<in>set post. \<not> P x"
  shows "find P (rev (pre @ e # post)) = Some e"
proof -
  have "find P (rev post) = None"
    using assms(2) by (simp add: find_None_iff)
  then show ?thesis
    using assms(1) by (simp add: find_append_split)
qed

subsection \<open>What each primitive changes\<close>

lemma emit_fields [simp]:
  "trace (emit e w) = trace w @ [e]"
  "helper_state (emit e w) = helper_state w"
  "helper (emit e w) = helper w"
  "client_state (emit e w) = client_state w"
  "sendEventToInsights_slot (emit e w) = sendEventToInsights_slot w"
  "initialParameters (emit e w) = initialParameters w"
  "queuedUserToken (emit e w) = queuedUserToken w"
  "userTokenBeforeInit (emit e w) = userTokenBeforeInit w"
  "credentials (emit e w) = credentials w"
  "anonymousUserToken (emit e w) = anonymousUserToken w"
  by (simp_all add: emit_def)

lemma setUserTokenToSearch_fields [simp]:
  "trace (setUserTokenToSearch t w) =
     trace w @ [HelperOverride ((helper_state w)\<lparr>userToken := t\<rparr>), ScheduleSearch]"
  "helper_state (setUserTokenToSearch t w) = (helper_state w)\<lparr>userToken := t\<rparr>"
  "helper (setUserTokenToSearch t w) = helper w"
  "client_state (setUserTokenToSearch t w) = client_state w"
  "sendEventToInsights_slot (setUserTokenToSearch t w) = sendEventToInsights_slot w"
  "initialParameters (setUserTokenToSearch t w) = initialParameters w"
  "queuedUserToken (setUserTokenToSearch t w) = queuedUserToken w"
  "userTokenBeforeInit (setUserTokenToSearch t w) = userTokenBeforeInit w"
  "credentials (setUserTokenToSearch t w) = credentials w"
  "anonymousUserToken (setUserTokenToSearch t w) = anonymousUserToken w"
  by (simp_all add: setUserTokenToSearch_def scheduleSearch_def
        overrideStateWithoutTriggeringChangeEvent_def)

lemma deliver_frame:
  "helper (deliver cb w) = helper w"
  "sendEventToInsights_slot (deliver cb w) = sendEventToInsights_slot w"
  "initialParameters (deliver cb w) = initialParameters w"
  "queuedUserToken (deliver cb w) = queuedUserToken w"
  "credentials (deliver cb w) = credentials w"
  "anonymousUserToken (deliver cb w) = anonymousUserToken w"
  "client_state (deliver cb w) = client_state w"
  "clickAnalytics (helper_state (deliver cb w)) = clickAnalytics (helper_state w)"
  "other (helper_state (deliver cb w)) = other (helper_state w)"
  by (cases cb; simp)+

lemma deliver_unbound:
  "\<not> helper w \<Longrightarrow>
     helper_state (deliver cb w) = helper_state w \<and> trace (deliver cb w) = trace w"
  by (cases cb) simp_all

lemma deliver_trace:
  "\<exists>d. trace (deliver cb w) = trace w @ d \<and> listener_effects d \<and>
       helper_state (deliver cb w) = replay d (helper_state w)"
  by (cases cb) simp_all

lemma fold_deliver_frame:
  "helper (fold deliver cbs w) = helper w"
  "sendEventToInsights_slot (fold deliver cbs w) = sendEventToInsights_slot w"
  "initialParameters (fold deliver cbs w) = initialParameters w"
  "queuedUserToken (fold deliver cbs w) = queuedUserToken w"
  "credentials (fold deliver cbs w) = credentials w"
  "anonymousUserToken (fold deliver cbs w) = anonymousUserToken w"
  "client_state (fold deliver cbs w) = client_state w"
  "clickAnalytics (helper_state (fold deliver cbs w)) = clickAnalytics (helper_state w)"
  "other (helper_state (fold deliver cbs w)) = other (helper_state w)"
  by (induction cbs arbitrary: w; simp add: deliver_frame)+

lemma fold_deliver_unbound:
  "\<not> helper w \<Longrightarrow>
     helper_state (fold deliver cbs w) = helper_state w \<and>
     trace (fold deliver cbs w) = trace w"
  by (induction cbs arbitrary: w) (simp_all add: deliver_unbound deliver_frame)

lemma fold_deliver_trace:
  "\<exists>d. trace (fold deliver cbs w) = trace w @ d \<and> listener_effects d \<and>
       helper_state (fold deliver cbs w) = replay d (helper_state w)"
proof (induction cbs arbitrary: w)
  case Nil
  have "trace (fold deliver [] w) = trace w @ [] \<and> listener_effects [] \<and>
       helper_state (fold deliver [] w) = replay [] (helper_state w)"
    by simp
  then show ?case by blast
next
  case (Cons cb cbs)
  obtain d1 where d1: "trace (deliver cb w) = trace w @ d1" "listener_effects d1"
      "helper_state (deliver cb w) = replay d1 (helper_state w)"
    using deliver_trace by blast
  obtain d2 where d2: "trace (fold deliver cbs (deliver cb w)) = trace (deliver cb w) @ d2"
      "listener_effects d2"
      "helper_state (fold deliver cbs (deliver cb w)) = replay d2 (helper_state (deliver cb w))"
    using Cons.IH by blast
  have "trace (fold deliver (cb # cbs) w) = trace w @ (d1 @ d2)"
    using d1 d2 by simp
  moreover have "listener_effects (d1 @ d2)"
    using d1 d2 by (simp add: listener_effects_append)
  moreover have "helper_state (fold deliver (cb # cbs) w) = replay (d1 @ d2) (helper_state w)"
    using d1 d2 by (simp add: replay_append)
  ultimately show ?case by blast
qed

lemma call_insights_Noop: "call_insights Noop c w = emit (InsightsCall NoopFn c) w"
  by (simp add: call_insights_def)

lemma call_insights_frame:
  "helper (call_insights cl c w) = helper w"
  "sendEventToInsights_slot (call_insights cl c w) = sendEventToInsights_slot w"
  "initialParameters (call_insights cl c w) = initialParameters w"
  "queuedUserToken (call_insights cl c w) = queuedUserToken w"
  "credentials (call_insights cl c w) = credentials w"
  "anonymousUserToken (call_insights cl c w) = anonymousUserToken w"
  "clickAnalytics (helper_state (call_insights cl c w)) = clickAnalytics (helper_state w)"
  "other (helper_state (call_insights cl c w)) = other (helper_state w)"
  by (simp_all add: call_insights_def fold_deliver_frame
      split: effective_client.splits prod.splits)

lemma call_insights_trace:
  "\<exists>d. trace (call_insights cl c w) = trace w @ InsightsCall (callee_of cl) c # d \<and>
       listener_effects d \<and>
       helper_state (call_insights cl c w) = replay d (helper_state w)"
proof (cases cl)
  case Noop
  have "trace (call_insights Noop c w) = trace w @ InsightsCall (callee_of Noop) c # [] \<and>
       listener_effects [] \<and> helper_state (call_insights Noop c w) = replay [] (helper_state w)"
    by (simp add: call_insights_Noop callee_of_def)
  then show ?thesis unfolding Noop by blast
next
  case (UserClient impl)
  obtain s' cbs where r: "respond impl (client_state w) c = (s', cbs)"
    by (cases "respond impl (client_state w) c")
  define v where "v = emit (InsightsCall ClientFn c) (w\<lparr>client_state := s'\<rparr>)"
  obtain d where d: "trace (fold deliver cbs v) = trace v @ d" "listener_effects d"
      "helper_state (fold deliver cbs v) = replay d (helper_state v)"
    using fold_deliver_trace by blast
  have "call_insights cl c w = fold deliver cbs v"
    using UserClient r by (simp add: call_insights_def v_def)
  then have "trace (call_insights cl c w) = trace w @ InsightsCall (callee_of cl) c # d \<and>
       listener_effects d \<and> helper_state (call_insights cl c w) = replay d (helper_state w)"
    using d UserClient by (simp add: v_def callee_of_def)
  then show ?thesis by blast
qed

lemma call_insights_unbound:
  "\<not> helper w \<Longrightarrow>
     helper_state (call_insights cl c w) = helper_state w \<and>
     trace (call_insights cl c w) = trace w @ [InsightsCall (callee_of cl) c]"
  by (simp add: call_insights_def callee_of_def fold_deliver_unbound
      split: effective_client.splits prod.splits)

lemma call_insights_observed:
  "insights_calls (effects_since w (call_insights cl c w)) = [(callee_of cl, c)] \<and>
   warnings (effects_since w (call_insights cl c w)) = [] \<and>
   handler_calls (effects_since w (call_insights cl c w)) = []"
proof -
  obtain d where d: "trace (call_insights cl c w) = trace w @ InsightsCall (callee_of cl) c # d"
      "listener_effects d"
    using call_insights_trace by blast
  then show ?thesis
    using listener_effects_silent [of d] by (simp add: effects_since_def)
qed

subsection \<open>Well-paired continuations\<close>

lemma extends_paired_refl:
  "trace w' = trace w \<Longrightarrow> helper_state w' = helper_state w \<Longrightarrow> extends_paired w w'"
  by (simp add: extends_paired_def)

lemma extends_paired_trans:
  assumes "extends_paired w w'" and "extends_paired w' w''"
  shows "extends_paired w w''"
proof -
  obtain d1 where d1: "trace w' = trace w @ d1" "well_paired d1"
      "helper_state w' = replay d1 (helper_state w)"
    using assms(1) unfolding extends_paired_def by blast
  obtain d2 where d2: "trace w'' = trace w' @ d2" "well_paired d2"
      "helper_state w'' = replay d2 (helper_state w')"
    using assms(2) unfolding extends_paired_def by blast
  have "trace w'' = trace w @ (d1 @ d2) \<and> well_paired (d1 @ d2) \<and>
      helper_state w'' = replay (d1 @ d2) (helper_state w)"
    using d1 d2 by (simp add: well_paired_append replay_append)
  then show ?thesis unfolding extends_paired_def by blast
qed

lemma extends_paired_call: "extends_paired w (call_insights cl c w)"
proof -
  obtain d where d: "trace (call_insights cl c w) = trace w @ InsightsCall (callee_of cl) c # d"
      "listener_effects d" "helper_state (call_insights cl c w) = replay d (helper_state w)"
    using call_insights_trace by blast
  then have "well_paired (InsightsCall (callee_of cl) c # d) \<and>
      helper_state (call_insights cl c w)
        = replay (InsightsCall (callee_of cl) c # d) (helper_state w)"
    by (simp add: listener_effects_well_paired)
  with d(1) show ?thesis unfolding extends_paired_def by blast
qed

lemma extends_paired_setUserTokenToSearch: "extends_paired w (setUserTokenToSearch t w)"
  by (simp add: extends_paired_def)

lemma extends_paired_since:
  "extends_paired w w' \<Longrightarrow>
     well_paired (effects_since w w') \<and>
     helper_state w' = replay (effects_since w w') (helper_state w)"
  by (auto simp: extends_paired_def effects_since_def)

lemma started_extends_paired: "extends_paired w (started mw w)"
proof -
  define w1 where "w1 = call_insights (insightsClient mw) (AddAlgoliaAgent ''insights-middleware'') w"
  define w3 where "w3 = capture_initialParameters (w1\<lparr>helper := True\<rparr>)"
  define w4 where "w4 = enable_clickAnalytics w3"
  define w5 where "w5 = apply_anonymousUserToken mw w4"
  define w6 where "w6 = forward_userToken mw w5"
  define w7 where "w7 = call_insights (insightsClient mw)
                 (OnUserTokenChange (Some SetUserTokenToSearch) (Some True)) w6"
  have s: "started mw w = w7\<lparr>sendEventToInsights_slot := Gateway\<rparr>"
    by (simp add: started_def Let_def w1_def w3_def w4_def w5_def w6_def w7_def)
  have "extends_paired w w1"
    unfolding w1_def by (rule extends_paired_call)
  moreover have "extends_paired w1 w3"
    by (rule extends_paired_refl) (simp_all add: w3_def capture_initialParameters_def)
  moreover have "extends_paired w3 w4"
    by (simp add: extends_paired_def w4_def enable_clickAnalytics_def scheduleSearch_def
        overrideStateWithoutTriggeringChangeEvent_def)
  moreover have "extends_paired w4 w5"
    by (simp add: w5_def apply_anonymousUserToken_def extends_paired_setUserTokenToSearch
        extends_paired_refl)
  moreover have "extends_paired w5 w6"
    by (simp add: w6_def forward_userToken_def extends_paired_call extends_paired_refl)
  moreover have "extends_paired w6 w7"
    unfolding w7_def by (rule extends_paired_call)
  moreover have "extends_paired w7 (started mw w)"
    by (rule extends_paired_refl) (simp_all add: s)
  ultimately show ?thesis
    by (blast intro: extends_paired_trans)
qed

subsection \<open>The hooks\<close>

lemma started_fields:
  "helper (started mw w) = True"
  "sendEventToInsights_slot (started mw w) = Gateway"
  "clickAnalytics (helper_state (started mw w)) = Some True"
  "other (helper_state (started mw w)) = other (helper_state w)"
  "initialParameters (started mw w) =
     Some \<lparr>init_userToken = userToken (helper_state
              (call_insights (insightsClient mw) (AddAlgoliaAgent ''insights-middleware'') w)),
           init_clickAnalytics = clickAnalytics (helper_state w)\<rparr>"
  by (simp_all add: started_def Let_def call_insights_frame forward_userToken_def
      apply_anonymousUserToken_def enable_clickAnalytics_def capture_initialParameters_def
      scheduleSearch_def overrideStateWithoutTriggeringChangeEvent_def)

lemma restore_fields:
  "helper w \<Longrightarrow> initialParameters w = Some ip \<Longrightarrow>
     helper_state (restore_initialParameters w)
       = (helper_state w)\<lparr>userToken := init_userToken ip, clickAnalytics := init_clickAnalytics ip\<rparr>
     \<and> trace (restore_initialParameters w)
       = trace w @ [HelperSetState ((helper_state w)\<lparr>userToken := init_userToken ip,
                                      clickAnalytics := init_clickAnalytics ip\<rparr>), ScheduleSearch]"
  by (simp add: restore_initialParameters_def scheduleSearch_def setState_def)

lemma restore_missing:
  "\<not> helper w \<or> initialParameters w = None \<Longrightarrow> restore_initialParameters w = w"
  by (auto simp: restore_initialParameters_def)

lemma restore_frame:
  "sendEventToInsights_slot (restore_initialParameters w) = sendEventToInsights_slot w"
  "helper (restore_initialParameters w) = helper w"
  "initialParameters (restore_initialParameters w) = initialParameters w"
  by (simp_all add: restore_initialParameters_def scheduleSearch_def setState_def
      split: option.splits)

lemma snapshot_consistent_setup:
  "middleware_setup mw w = Inr w' \<Longrightarrow> snapshot_consistent w' \<and> \<not> helper w'"
  by (auto simp: middleware_setup_def before_init_def snapshot_consistent_def Let_def
      call_insights_frame split: prod.splits if_splits option.splits)

lemma snapshot_consistent_started: "snapshot_consistent (started mw w)"
  by (simp add: snapshot_consistent_def started_fields)

lemma snapshot_consistent_unsubscribe:
  "snapshot_consistent w \<Longrightarrow> snapshot_consistent (unsubscribe mw w)"
  by (simp add: snapshot_consistent_def unsubscribe_def Let_def restore_frame call_insights_frame)

lemma snapshot_consistent_deliver:
  "snapshot_consistent w \<Longrightarrow> snapshot_consistent (deliver cb w)"
  by (simp add: snapshot_consistent_def deliver_frame)


subsection \<open>Setup\<close>

lemma before_init_fields:
  "queuedUserToken (before_init mw w)
     = read_queuedUserToken (client_queue (insightsClient mw) (client_state w))"
  "helper (before_init mw w) = False"
  "helper_state (before_init mw w) = helper_state w"
  "trace (before_init mw w) = trace w @ [InsightsCall (callee_of (insightsClient mw)) GetUserToken]"
  by (simp_all add: before_init_def call_insights_frame call_insights_unbound)

lemma setup_cases:
  "middleware_setup mw w =
     (if DEV mw \<and> \<not> (truthy (fst (credentials w)) \<and> truthy (snd (credentials w)))
      then Inl (Error ''[insights middleware]: could not extract Algolia credentials from searchClient'')
      else
        (case client_init_throws (insightsClient mw) (client_state (before_init mw w))
                (fst (credentials w)) (snd (credentials w)) (insightsInitParams mw) of
           Some msg \<Rightarrow> Inl (Error msg)
         | None \<Rightarrow>
             Inr (call_insights (insightsClient mw)
                    (Init (fst (credentials w)) (snd (credentials w)) (insightsInitParams mw))
                    (before_init mw w))))"
  by (cases "credentials w") (auto simp: middleware_setup_def Let_def split: option.splits)

lemma setup_queuedUserToken:
  assumes "middleware_setup mw w = Inr w'"
  shows "queuedUserToken w'
     = read_queuedUserToken (client_queue (insightsClient mw) (client_state w))"
  using assms
  by (auto simp: setup_cases call_insights_frame before_init_fields
      split: if_splits option.splits)


section \<open>Evaluating the example collaborators\<close>

lemma create_client_middleware:
  "createInsightsMiddleware dev (Some (client_props impl h)) = Inr (client_middleware dev impl h)"
  by (simp add: createInsightsMiddleware_def props_or_empty_def client_props_def
      client_middleware_def)

lemma create_disabled_middleware:
  "createInsightsMiddleware dev (Some null_props) = Inr (disabled_middleware dev)"
  by (simp add: createInsightsMiddleware_def props_or_empty_def null_props_def
      disabled_middleware_def)

lemma client_middleware_fields [simp]:
  "insightsClient (client_middleware dev impl h) = UserClient impl"
  "hasInsightsClient (client_middleware dev impl h) = True"
  "raw_insightsClient (client_middleware dev impl h) = Client impl"
  "onEvent (client_middleware dev impl h) = h"
  "insightsInitParams (client_middleware dev impl h) = None"
  "DEV (client_middleware dev impl h) = dev"
  by (simp_all add: client_middleware_def)

lemma disabled_middleware_fields [simp]:
  "insightsClient (disabled_middleware dev) = Noop"
  "hasInsightsClient (disabled_middleware dev) = False"
  "raw_insightsClient (disabled_middleware dev) = Null"
  "onEvent (disabled_middleware dev) = None"
  "insightsInitParams (disabled_middleware dev) = None"
  "DEV (disabled_middleware dev) = dev"
  by (simp_all add: disabled_middleware_def)

lemma call_snippet:
  "call_insights (UserClient snippet_client) c w
     = emit (InsightsCall ClientFn c) (w\<lparr>client_state := client_state w @ [call_entry c]\<rparr>)"
  by (simp add: call_insights_def snippet_client_def)

lemma queue_snippet: "client_queue (UserClient snippet_client) s = Some s"
  by (simp add: client_queue_def snippet_client_def)

lemma init_snippet: "client_init_throws (UserClient snippet_client) s appId apiKey params = None"
  by (simp add: client_init_throws_def snippet_client_def)

lemma init_loaded:
  "client_init_throws (UserClient loaded_client) s appId apiKey params
     = loaded_init_throws appId apiKey"
  by (simp add: client_init_throws_def loaded_client_def)


lemma snippet_setup:
  "middleware_setup (client_middleware True snippet_client None)
     (fresh_world (Some ''app'', Some ''key'') no_parameters [[''setUserToken'', ''q'']])
   = Inr snippet_after_setup"
  by (simp add: middleware_setup_def before_init_def init_snippet call_snippet
     snippet_after_setup_def fresh_world_def emit_def truthy_def Let_def queue_snippet
     read_queuedUserToken_def is_setUserToken_def entry_method_def entry_second_def)

lemma snippet_install:
  "install True (Some (client_props snippet_client None))
     (fresh_world (Some ''app'', Some ''key'') no_parameters [[''setUserToken'', ''q'']])
   = Inr (client_middleware True snippet_client None, snippet_after_setup)"
  by (simp add: install_def create_client_middleware snippet_setup)

lemma snippet_started:
  "userToken (helper_state (started (client_middleware True snippet_client None)
      snippet_after_setup)) = None"
  "effects_since snippet_after_setup
      (started (client_middleware True snippet_client None) snippet_after_setup)
     = [InsightsCall ClientFn (AddAlgoliaAgent ''insights-middleware''),
        HelperOverride \<lparr>userToken = None, clickAnalytics = Some True, other = []\<rparr>,
        ScheduleSearch,
        InsightsCall ClientFn (SetUserToken (Some ''q'')),
        InsightsCall ClientFn (OnUserTokenChange (Some SetUserTokenToSearch) (Some True))]"
  by (simp_all add: started_def Let_def call_snippet snippet_after_setup_def
      no_parameters_def capture_initialParameters_def enable_clickAnalytics_def
      apply_anonymousUserToken_def forward_userToken_def scheduleSearch_def
      overrideStateWithoutTriggeringChangeEvent_def emit_def truthy_def effects_since_def)

section \<open>The claims\<close>

text \<open>
  Claim C1 (token precedence). The token that \<^verbatim>\<open>started()\<close> leaves on the search session
  should be \<^verbatim>\<open>userTokenBeforeInit\<close> if present, otherwise \<^verbatim>\<open>queuedUserToken\<close> if present,
  otherwise the anonymous token. The code writes only the anonymous token to the session
  itself; the other two are handed to the analytics client with \<^verbatim>\<open>setUserToken\<close> and reach
  the session only if the client calls the listener. With the client whose library has
  not loaded yet, a token queued as \<^verbatim>\<open>['setUserToken', 'q']\<close> is read from the queue, the
  call \<^verbatim>\<open>('setUserToken', 'q')\<close> is stored in the queue again, and the session's token after
  \<^verbatim>\<open>started()\<close> is still unset: the first search is scheduled without the token, which
  the comment at lines 82-85 says the queue is read to prevent.
\<close>

theorem queued_token_not_applied_by_unloaded_client:
  "(case install True (Some (client_props snippet_client None))
           (fresh_world (Some ''app'', Some ''key'') no_parameters [[''setUserToken'', ''q'']]) of
      Inl e \<Rightarrow> False
    | Inr (mw, w) \<Rightarrow>
        queuedUserToken w = Some ''q'' \<and> userTokenBeforeInit w = None \<and>
        userToken (helper_state (started mw w)) = None \<and>
        effects_since w (started mw w)
          = [InsightsCall ClientFn (AddAlgoliaAgent ''insights-middleware''),
             HelperOverride \<lparr>userToken = None, clickAnalytics = Some True, other = []\<rparr>,
             ScheduleSearch,
             InsightsCall ClientFn (SetUserToken (Some ''q'')),
             InsightsCall ClientFn (OnUserTokenChange (Some SetUserTokenToSearch) (Some True))])"
proof -
  have "queuedUserToken snippet_after_setup = Some ''q''"
    and "userTokenBeforeInit snippet_after_setup = None"
    by (simp_all add: snippet_after_setup_def)
  then show ?thesis
    using snippet_install snippet_started by simp
qed

text \<open>
  What the code does for every client: the token handed to the client follows the
  precedence, and the anonymous token is the only one written to the session directly.
\<close>

lemma forward_userToken_precedence:
  "insights_calls (effects_since w (forward_userToken mw w))
     = (if truthy (userTokenBeforeInit w)
        then [(callee_of (insightsClient mw), SetUserToken (userTokenBeforeInit w))]
        else if truthy (queuedUserToken w)
        then [(callee_of (insightsClient mw), SetUserToken (queuedUserToken w))]
        else [])"
  by (simp add: forward_userToken_def call_insights_observed effects_since_same)

lemma apply_anonymousUserToken_effects:
  "effects_since w (apply_anonymousUserToken mw w)
     = (if hasInsightsClient mw \<and> truthy (anonymousUserToken w)
        then [HelperOverride ((helper_state w)\<lparr>userToken := anonymousUserToken w\<rparr>),
              ScheduleSearch]
        else [])"
  by (simp add: apply_anonymousUserToken_def effects_since_def)

text \<open>
  With the loaded example client, not yet listening, the session's token after
  \<^verbatim>\<open>started()\<close> is \<^verbatim>\<open>userTokenBeforeInit\<close> if present, otherwise \<^verbatim>\<open>queuedUserToken\<close> if
  present, and otherwise whatever the client delivers on registration: its current token,
  also when it has none.
\<close>

lemma call_loaded:
  "call_insights (UserClient loaded_client) c w
     = fold deliver (snd (loaded_respond (client_state w) c))
         (emit (InsightsCall ClientFn c)
            (w\<lparr>client_state := fst (loaded_respond (client_state w) c)\<rparr>))"
  by (simp add: call_insights_def loaded_client_def split: prod.splits)

lemma loaded_client_started_token:
  assumes "\<not> listening (client_state w)"
  shows "userToken (helper_state (started (client_middleware dev loaded_client h) w))
     = (if truthy (userTokenBeforeInit w) then userTokenBeforeInit w
        else if truthy (queuedUserToken w) then queuedUserToken w
        else current_token (client_state w))"
  using assms
  by (simp add: started_def Let_def call_loaded loaded_respond_def forward_userToken_def
      apply_anonymousUserToken_def enable_clickAnalytics_def capture_initialParameters_def
      scheduleSearch_def overrideStateWithoutTriggeringChangeEvent_def)

text \<open>
  Claim C2 (event dispatch gateway). For an event passed to the installed
  \<^verbatim>\<open>sendEventToInsights\<close>: with an \<^verbatim>\<open>onEvent\<close> handler the only effect is the call of the
  handler with the event and the raw client reference; otherwise, without
  \<^verbatim>\<open>insightsMethod\<close> the only effect is one warning; otherwise, with an empty session
  \<^verbatim>\<open>userToken\<close> the only effect is one warning; otherwise the analytics client is called
  exactly once, with the method and the payload, and nothing is warned.
\<close>

theorem event_dispatch_gateway:
  assumes "sendEventToInsights_slot w = Gateway"
  shows
   "(onEvent mw = Some h \<longrightarrow>
       invoke_sendEventToInsights mw event w
         = emit (OnEventCall h event (client_ref_of (raw_insightsClient mw))) w) \<and>
    (onEvent mw = None \<and> \<not> truthy (insightsMethod event) \<longrightarrow>
       invoke_sendEventToInsights mw event w = emit (Warning no_insightsMethod_message) w) \<and>
    (onEvent mw = None \<and> truthy (insightsMethod event) \<and>
     \<not> truthy (userToken (helper_state w)) \<longrightarrow>
       invoke_sendEventToInsights mw event w = emit (Warning no_userToken_message) w) \<and>
    (onEvent mw = None \<and> truthy (insightsMethod event) \<and>
     truthy (userToken (helper_state w)) \<longrightarrow>
       insights_calls (effects_since w (invoke_sendEventToInsights mw event w))
         = [(callee_of (insightsClient mw), SendEvent (insightsMethod event) (payload event))] \<and>
       warnings (effects_since w (invoke_sendEventToInsights mw event w)) = [] \<and>
       handler_calls (effects_since w (invoke_sendEventToInsights mw event w)) = [])"
  using assms
  by (simp add: invoke_sendEventToInsights_def sendEventToInsights_def warning_def
      call_insights_observed)

theorem event_dispatch_gateway_witness:
  "invoke_sendEventToInsights (client_middleware True loaded_client (Some ''handler''))
       click_without_method (started_world None \<lparr>current_token = None, listening = True\<rparr>)
     = emit (OnEventCall ''handler'' click_without_method ClientRef)
         (started_world None \<lparr>current_token = None, listening = True\<rparr>) \<and>
   invoke_sendEventToInsights (client_middleware True loaded_client None)
       click_without_method (started_world (Some ''u1'') \<lparr>current_token = None, listening = True\<rparr>)
     = emit (Warning no_insightsMethod_message)
         (started_world (Some ''u1'') \<lparr>current_token = None, listening = True\<rparr>) \<and>
   invoke_sendEventToInsights (client_middleware True loaded_client None)
       click_event (started_world None \<lparr>current_token = None, listening = True\<rparr>)
     = emit (Warning no_userToken_message)
         (started_world None \<lparr>current_token = None, listening = True\<rparr>) \<and>
   insights_calls (effects_since (started_world (Some ''u1'') \<lparr>current_token = None, listening = True\<rparr>)
       (invoke_sendEventToInsights (client_middleware True loaded_client None)
          click_event (started_world (Some ''u1'') \<lparr>current_token = None, listening = True\<rparr>)))
     = [(ClientFn, SendEvent (Some ''clickedObjectIDs'') ''{objectIDs}'')]"
proof -
  let ?s = "\<lparr>current_token = None, listening = True\<rparr>"
  have g: "sendEventToInsights_slot (started_world tok ?s) = Gateway" for tok
    by (simp add: started_world_def)
  have t: "userToken (helper_state (started_world tok ?s)) = tok" for tok
    by (simp add: started_world_def)
  have m: "insightsMethod click_without_method = None"
    "insightsMethod click_event = Some ''clickedObjectIDs''"
    "payload click_event = ''{objectIDs}''"
    by (simp_all add: click_without_method_def click_event_def)
  show ?thesis
    using event_dispatch_gateway [OF g, of "client_middleware True loaded_client (Some ''handler'')"
            "''handler''" click_without_method None]
          event_dispatch_gateway [OF g, of "client_middleware True loaded_client None"
            "''handler''" click_without_method "Some ''u1''"]
          event_dispatch_gateway [OF g, of "client_middleware True loaded_client None"
            "''handler''" click_event None]
          event_dispatch_gateway [OF g, of "client_middleware True loaded_client None"
            "''handler''" click_event "Some ''u1''"]
    by (simp add: t m truthy_def client_ref_of_def callee_of_def)
qed


text \<open>
  Claim C3 (snapshot/restore round-trip). For a middleware that has not been started
  before, whatever the client does: after \<^verbatim>\<open>started()\<close> the session's \<^verbatim>\<open>clickAnalytics\<close> is
  \<^verbatim>\<open>true\<close>, and after a subsequent \<^verbatim>\<open>unsubscribe()\<close> the whole session state is what it was
  before \<^verbatim>\<open>started()\<close>; for the state \<^verbatim>\<open>{userToken: 'u0', clickAnalytics: false}\<close> that is
  \<^verbatim>\<open>'u0'\<close> and \<^verbatim>\<open>false\<close>.
\<close>

theorem snapshot_restore_roundtrip:
  assumes "\<not> helper w"
  shows "clickAnalytics (helper_state (started mw w)) = Some True \<and>
         helper_state (unsubscribe mw (started mw w)) = helper_state w"
proof -
  define v where "v = started mw w"
  define u where "u = (call_insights (insightsClient mw) (OnUserTokenChange None None) v)
                        \<lparr>sendEventToInsights_slot := NoopSlot\<rparr>"
  define ip where "ip = \<lparr>init_userToken = userToken (helper_state w),
                          init_clickAnalytics = clickAnalytics (helper_state w)\<rparr>"
  have snap: "initialParameters v = Some ip"
    using assms by (simp add: v_def ip_def started_fields call_insights_unbound)
  have u_helper: "helper u"
    by (simp add: u_def v_def call_insights_frame started_fields)
  have u_snap: "initialParameters u = Some ip"
    using snap by (simp add: u_def call_insights_frame)
  have u_other: "other (helper_state u) = other (helper_state w)"
    by (simp add: u_def v_def call_insights_frame started_fields)
  have "helper_state (restore_initialParameters u)
       = (helper_state u)\<lparr>userToken := init_userToken ip,
                          clickAnalytics := init_clickAnalytics ip\<rparr>"
    using restore_fields [OF u_helper u_snap] by simp
  then have "helper_state (restore_initialParameters u) = helper_state w"
    using u_other by (intro search_parameters.equality) (simp_all add: ip_def)
  moreover have "unsubscribe mw v = restore_initialParameters u"
    by (simp add: unsubscribe_def Let_def u_def)
  ultimately show ?thesis
    by (simp add: v_def started_fields)
qed

theorem snapshot_restore_roundtrip_witness:
  "\<not> helper (fresh_world (Some ''app'', Some ''key'') u0_parameters
               \<lparr>current_token = Some ''u1'', listening = False\<rparr>) \<and>
   clickAnalytics (helper_state (started (client_middleware True loaded_client None)
       (fresh_world (Some ''app'', Some ''key'') u0_parameters
          \<lparr>current_token = Some ''u1'', listening = False\<rparr>))) = Some True \<and>
   helper_state (unsubscribe (client_middleware True loaded_client None)
       (started (client_middleware True loaded_client None)
          (fresh_world (Some ''app'', Some ''key'') u0_parameters
             \<lparr>current_token = Some ''u1'', listening = False\<rparr>)))
     = \<lparr>userToken = Some ''u0'', clickAnalytics = Some False, other = []\<rparr>"
proof -
  let ?w = "fresh_world (Some ''app'', Some ''key'') u0_parameters
              \<lparr>current_token = Some ''u1'', listening = False\<rparr>"
  have h: "\<not> helper ?w"
    by (simp add: fresh_world_def)
  have "helper_state ?w = \<lparr>userToken = Some ''u0'', clickAnalytics = Some False, other = []\<rparr>"
    by (simp add: fresh_world_def u0_parameters_def)
  then show ?thesis
    using h snapshot_restore_roundtrip [OF h, of "client_middleware True loaded_client None"]
    by simp
qed

text \<open>
  Claim C4 (queue scan). When setup returns, \<^verbatim>\<open>queuedUserToken\<close> is read from the
  analytics client's queue: with \<^verbatim>\<open>noop\<close>, with a client without a queue, or with a queue
  without a \<^verbatim>\<open>setUserToken\<close> entry there is no queued token; otherwise the token is the
  second element of the last \<^verbatim>\<open>setUserToken\<close> entry of the queue; and for the queue
  \<^verbatim>\<open>[['setUserToken','a'], ['other'], ['setUserToken','b']]\<close> it is \<^verbatim>\<open>'b'\<close>. The scan is not
  an error: whenever setup throws, it is the credentials check of lines 66-70 or the
  client's \<^verbatim>\<open>init\<close> that throws.
\<close>

theorem queue_scan_selects_most_recent:
  "(\<forall>err. middleware_setup mw w = Inl err \<longrightarrow>
      (DEV mw \<and> \<not> (truthy (fst (credentials w)) \<and> truthy (snd (credentials w)))) \<or>
      client_init_throws (insightsClient mw) (client_state (before_init mw w))
        (fst (credentials w)) (snd (credentials w)) (insightsInitParams mw) \<noteq> None) \<and>
   (middleware_setup mw w = Inr w' \<longrightarrow>
      (insightsClient mw = Noop \<longrightarrow> queuedUserToken w' = None) \<and>
      (insightsClient mw = UserClient impl \<longrightarrow>
         (queue impl (client_state w) = None \<longrightarrow> queuedUserToken w' = None) \<and>
         (queue impl (client_state w) = Some es \<and> (\<forall>x\<in>set es. \<not> is_setUserToken x) \<longrightarrow>
            queuedUserToken w' = None) \<and>
         (queue impl (client_state w) = Some (pre @ e # post) \<and> is_setUserToken e \<and>
          (\<forall>x\<in>set post. \<not> is_setUserToken x) \<longrightarrow>
            queuedUserToken w' = entry_second e) \<and>
         (queue impl (client_state w)
            = Some [[''setUserToken'', ''a''], [''other''], [''setUserToken'', ''b'']] \<longrightarrow>
            queuedUserToken w' = Some ''b'')))"
proof -
  have errors: "(DEV mw \<and> \<not> (truthy (fst (credentials w)) \<and> truthy (snd (credentials w)))) \<or>
      client_init_throws (insightsClient mw) (client_state (before_init mw w))
        (fst (credentials w)) (snd (credentials w)) (insightsInitParams mw) \<noteq> None"
    if "middleware_setup mw w = Inl err" for err
    using that by (auto simp: setup_cases split: if_splits option.splits)
  have scan: "(insightsClient mw = Noop \<longrightarrow> queuedUserToken w' = None) \<and>
      (insightsClient mw = UserClient impl \<longrightarrow>
         (queue impl (client_state w) = None \<longrightarrow> queuedUserToken w' = None) \<and>
         (queue impl (client_state w) = Some es \<and> (\<forall>x\<in>set es. \<not> is_setUserToken x) \<longrightarrow>
            queuedUserToken w' = None) \<and>
         (queue impl (client_state w) = Some (pre @ e # post) \<and> is_setUserToken e \<and>
          (\<forall>x\<in>set post. \<not> is_setUserToken x) \<longrightarrow>
            queuedUserToken w' = entry_second e) \<and>
         (queue impl (client_state w)
            = Some [[''setUserToken'', ''a''], [''other''], [''setUserToken'', ''b'']] \<longrightarrow>
            queuedUserToken w' = Some ''b''))"
    if r: "middleware_setup mw w = Inr w'"
  proof -
    have q: "queuedUserToken w'
        = read_queuedUserToken (client_queue (insightsClient mw) (client_state w))"
      using r by (rule setup_queuedUserToken)
    have none: "read_queuedUserToken None = None"
      by (simp add: read_queuedUserToken_def)
    have absent: "read_queuedUserToken (Some es) = None" if "\<forall>x\<in>set es. \<not> is_setUserToken x"
    proof -
      have "find is_setUserToken (rev es) = None"
        using that by (simp add: find_None_iff)
      then show ?thesis by (simp add: read_queuedUserToken_def)
    qed
    have recent: "read_queuedUserToken (Some (pre @ e # post)) = entry_second e"
      if "is_setUserToken e" and "\<forall>x\<in>set post. \<not> is_setUserToken x"
      using find_rev_last_match [of is_setUserToken e post pre] that
      by (simp add: read_queuedUserToken_def)
    have example: "read_queuedUserToken
        (Some [[''setUserToken'', ''a''], [''other''], [''setUserToken'', ''b'']]) = Some ''b''"
      by (simp add: read_queuedUserToken_def is_setUserToken_def entry_method_def
          entry_second_def)
    have noop: "queuedUserToken w' = None" if "insightsClient mw = Noop"
      using q that none by (simp add: client_queue_def)
    have client: "queuedUserToken w' = read_queuedUserToken (queue impl (client_state w))"
      if "insightsClient mw = UserClient impl"
      using q that by (simp add: client_queue_def)
    show ?thesis
      using noop client none absent recent example by metis
  qed
  show ?thesis
    using errors scan by blast
qed

theorem queue_scan_selects_most_recent_witness:
  "(case middleware_setup (client_middleware True snippet_client None)
          (fresh_world (Some ''app'', Some ''key'') no_parameters
             [[''setUserToken'', ''a''], [''setUserToken'', ''b''], [''other'']]) of
      Inl err \<Rightarrow> False
    | Inr w' \<Rightarrow> queuedUserToken w' = Some ''b'') \<and>
   (case middleware_setup (client_middleware True loaded_client None)
          (fresh_world (Some ''app'', Some ''key'') no_parameters
             \<lparr>current_token = None, listening = False\<rparr>) of
      Inl err \<Rightarrow> False
    | Inr w' \<Rightarrow> queuedUserToken w' = None)"
proof -
  let ?m1 = "client_middleware True snippet_client None"
  let ?w1 = "fresh_world (Some ''app'', Some ''key'') no_parameters
               [[''setUserToken'', ''a''], [''setUserToken'', ''b''], [''other'']]"
  let ?m2 = "client_middleware True loaded_client None"
  let ?w2 = "fresh_world (Some ''app'', Some ''key'') no_parameters
               \<lparr>current_token = None, listening = False\<rparr>"
  define x1 where "x1 = call_insights (insightsClient ?m1)
      (Init (fst (credentials ?w1)) (snd (credentials ?w1)) (insightsInitParams ?m1))
      (before_init ?m1 ?w1)"
  define x2 where "x2 = call_insights (insightsClient ?m2)
      (Init (fst (credentials ?w2)) (snd (credentials ?w2)) (insightsInitParams ?m2))
      (before_init ?m2 ?w2)"
  have c: "credentials ?w1 = (Some ''app'', Some ''key'')"
    "credentials ?w2 = (Some ''app'', Some ''key'')"
    by (simp_all add: fresh_world_def)
  have r1: "middleware_setup ?m1 ?w1 = Inr x1"
    unfolding setup_cases x1_def by (simp add: c truthy_def init_snippet)
  have r2: "middleware_setup ?m2 ?w2 = Inr x2"
    unfolding setup_cases x2_def
    by (simp add: c truthy_def init_loaded loaded_init_throws_def)
  have q1: "queue snippet_client (client_state ?w1)
      = Some ([[''setUserToken'', ''a'']] @ [''setUserToken'', ''b''] # [[''other'']])"
    by (simp add: snippet_client_def fresh_world_def)
  have p1: "is_setUserToken [''setUserToken'', ''b''] \<and>
      (\<forall>x\<in>set [[''other'']]. \<not> is_setUserToken x)"
    by (simp add: is_setUserToken_def entry_method_def)
  have q2: "queue loaded_client (client_state ?w2) = None"
    by (simp add: loaded_client_def)
  have m: "insightsClient ?m1 = UserClient snippet_client"
    "insightsClient ?m2 = UserClient loaded_client"
    by simp_all
  have a: "queuedUserToken x1 = entry_second [''setUserToken'', ''b'']"
    using r1 q1 p1 m(1)
      queue_scan_selects_most_recent [where mw = ?m1 and w = ?w1 and w' = x1
        and impl = snippet_client and pre = "[[''setUserToken'', ''a'']]"
        and e = "[''setUserToken'', ''b'']" and post = "[[''other'']]"]
    by blast
  have b: "queuedUserToken x2 = None"
    using r2 q2 m(2)
      queue_scan_selects_most_recent [where mw = ?m2 and w = ?w2 and w' = x2
        and impl = loaded_client]
    by blast
  show ?thesis
    using a b by (simp add: r1 r2 entry_second_def)
qed

text \<open>
  Claim C5 (no-notify mutation). Whatever the client does, the effects of \<^verbatim>\<open>started()\<close>
  contain no notifying write (\<^verbatim>\<open>setState\<close>), every override is immediately followed by one
  \<^verbatim>\<open>scheduleSearch\<close> and there is no other \<^verbatim>\<open>scheduleSearch\<close>, and the session state after
  \<^verbatim>\<open>started()\<close> is the result of the recorded overrides. The runtime token-change path
  \<^verbatim>\<open>setUserTokenToSearch\<close> is one override followed by one \<^verbatim>\<open>scheduleSearch\<close>.
\<close>

theorem no_notify_mutation:
  "well_paired (effects_since w (started mw w)) \<and>
   filter is_notification (effects_since w (started mw w)) = [] \<and>
   length (filter is_override (effects_since w (started mw w)))
     = length (filter (\<lambda>e. e = ScheduleSearch) (effects_since w (started mw w))) \<and>
   helper_state (started mw w) = replay (effects_since w (started mw w)) (helper_state w) \<and>
   effects_since w (setUserTokenToSearch t w)
     = [HelperOverride ((helper_state w)\<lparr>userToken := t\<rparr>), ScheduleSearch]"
proof -
  have "well_paired (effects_since w (started mw w)) \<and>
     helper_state (started mw w) = replay (effects_since w (started mw w)) (helper_state w)"
    using started_extends_paired by (rule extends_paired_since)
  moreover have "effects_since w (setUserTokenToSearch t w)
     = [HelperOverride ((helper_state w)\<lparr>userToken := t\<rparr>), ScheduleSearch]"
    by (simp add: effects_since_def)
  ultimately show ?thesis
    using well_paired_counts [of "effects_since w (started mw w)"] by simp
qed

text \<open>
  Claim C6 (post-teardown inertness). After \<^verbatim>\<open>unsubscribe()\<close> the slot holds \<^verbatim>\<open>noop\<close>, and
  invoking the slot with any event leaves everything as it is: nothing is added to the
  trace, so the analytics client is not called, and there is no error result.
\<close>

theorem post_teardown_inert:
  "sendEventToInsights_slot (unsubscribe mw w) = NoopSlot \<and>
   invoke_sendEventToInsights mw event (unsubscribe mw w) = unsubscribe mw w \<and>
   effects_since (unsubscribe mw w)
     (invoke_sendEventToInsights mw event (unsubscribe mw w)) = []"
proof -
  have "sendEventToInsights_slot (unsubscribe mw w) = NoopSlot"
    by (simp add: unsubscribe_def Let_def restore_frame)
  then show ?thesis
    by (simp add: invoke_sendEventToInsights_def effects_since_same)
qed

text \<open>
  Claim C7 (client configuration). \<^verbatim>\<open>createInsightsMiddleware\<close> throws exactly when the
  \<^verbatim>\<open>insightsClient\<close> option is \<^verbatim>\<open>undefined\<close> (also when \<^verbatim>\<open>props\<close> itself is). With \<^verbatim>\<open>null\<close> it
  returns a middleware whose \<^verbatim>\<open>insightsClient\<close> is \<^verbatim>\<open>noop\<close> and whose \<^verbatim>\<open>hasInsightsClient\<close>
  is false, so that every call on the client reaches \<^verbatim>\<open>noop\<close> and does nothing.
\<close>

theorem client_configuration_raises_iff:
  "((\<exists>e. createInsightsMiddleware dev (props :: 'c insights_props option) = Inl e) \<longleftrightarrow>
      props_insightsClient (props_or_empty props) = Undefined) \<and>
   (props_insightsClient p = Null \<longrightarrow>
      (\<exists>mw. createInsightsMiddleware dev (Some p) = Inr mw \<and>
            insightsClient mw = Noop \<and> \<not> hasInsightsClient mw \<and>
            (\<forall>c w. call_insights (insightsClient mw) c (w :: 'c world)
                     = emit (InsightsCall NoopFn c) w)))"
  by (simp add: createInsightsMiddleware_def props_or_empty_def call_insights_Noop
      split: client_option.splits option.splits)

theorem client_configuration_raises_iff_witness:
  "(\<exists>e. createInsightsMiddleware True (None :: unit insights_props option) = Inl e) \<and>
   (\<exists>mw. createInsightsMiddleware True (Some (null_props :: unit insights_props)) = Inr mw \<and>
         insightsClient mw = Noop \<and> \<not> hasInsightsClient mw)"
proof -
  have "props_insightsClient (props_or_empty (None :: unit insights_props option)) = Undefined"
    by (simp add: props_or_empty_def)
  moreover have "props_insightsClient (null_props :: unit insights_props) = Null"
    by (simp add: null_props_def)
  ultimately show ?thesis
    using client_configuration_raises_iff [of True "None :: unit insights_props option"
        "null_props :: unit insights_props"]
    by blast
qed





text \<open>
  Claim C9 (conditional teardown restore). \<^verbatim>\<open>unsubscribe()\<close> always calls
  \<^verbatim>\<open>('onUserTokenChange', undefined)\<close> first and leaves \<^verbatim>\<open>noop\<close> in the slot. When \<^verbatim>\<open>helper\<close>
  and \<^verbatim>\<open>initialParameters\<close> are both set, it ends by writing the snapshot's \<^verbatim>\<open>userToken\<close>
  and \<^verbatim>\<open>clickAnalytics\<close> with \<^verbatim>\<open>setState\<close> and scheduling one search. When either is unset it
  does nothing beyond the client call and the slot, and writes nothing with \<^verbatim>\<open>setState\<close>;
  before \<^verbatim>\<open>started()\<close> has run, the session state is unchanged and the client call is the
  only effect. There is no error result.
\<close>

theorem conditional_teardown_restore:
  "sendEventToInsights_slot (unsubscribe mw w) = NoopSlot \<and>
   take 1 (effects_since w (unsubscribe mw w))
     = [InsightsCall (callee_of (insightsClient mw)) (OnUserTokenChange None None)] \<and>
   (helper w \<and> initialParameters w = Some ip \<longrightarrow>
      userToken (helper_state (unsubscribe mw w)) = init_userToken ip \<and>
      clickAnalytics (helper_state (unsubscribe mw w)) = init_clickAnalytics ip \<and>
      (\<exists>d. effects_since w (unsubscribe mw w)
             = d @ [HelperSetState (helper_state (unsubscribe mw w)), ScheduleSearch] \<and>
           filter is_notification d = [])) \<and>
   (\<not> helper w \<or> initialParameters w = None \<longrightarrow>
      unsubscribe mw w
        = (call_insights (insightsClient mw) (OnUserTokenChange None None) w)
            \<lparr>sendEventToInsights_slot := NoopSlot\<rparr> \<and>
      filter is_notification (effects_since w (unsubscribe mw w)) = []) \<and>
   (\<not> helper w \<longrightarrow>
      helper_state (unsubscribe mw w) = helper_state w \<and>
      effects_since w (unsubscribe mw w)
        = [InsightsCall (callee_of (insightsClient mw)) (OnUserTokenChange None None)])"
proof -
  define c where "c = OnUserTokenChange None None"
  define u where "u = (call_insights (insightsClient mw) c w)\<lparr>sendEventToInsights_slot := NoopSlot\<rparr>"
  have unsub: "unsubscribe mw w = restore_initialParameters u"
    by (simp add: unsubscribe_def Let_def u_def c_def)
  obtain d where d: "trace u = trace w @ InsightsCall (callee_of (insightsClient mw)) c # d"
      "listener_effects d"
    using call_insights_trace [of "insightsClient mw" c w] by (auto simp: u_def)
  have d_quiet: "filter is_notification d = []"
    using d(2) listener_effects_well_paired well_paired_counts by blast
  have u_frame: "helper u = helper w" "initialParameters u = initialParameters w"
    by (simp_all add: u_def call_insights_frame)
  have slot: "sendEventToInsights_slot (unsubscribe mw w) = NoopSlot"
    by (simp add: unsub restore_frame u_def)
  have first: "take 1 (effects_since w (unsubscribe mw w))
     = [InsightsCall (callee_of (insightsClient mw)) c]"
  proof (cases "helper u \<and> initialParameters u \<noteq> None")
    case True
    then obtain ip' where "initialParameters u = Some ip'" by auto
    with True restore_fields [of u ip'] d show ?thesis
      by (simp add: unsub effects_since_def)
  next
    case False
    then have "restore_initialParameters u = u"
      using restore_missing by blast
    with d show ?thesis by (simp add: unsub effects_since_def)
  qed
  have both: "userToken (helper_state (unsubscribe mw w)) = init_userToken ip \<and>
      clickAnalytics (helper_state (unsubscribe mw w)) = init_clickAnalytics ip \<and>
      (\<exists>d. effects_since w (unsubscribe mw w)
             = d @ [HelperSetState (helper_state (unsubscribe mw w)), ScheduleSearch] \<and>
           filter is_notification d = [])"
    if "helper w" "initialParameters w = Some ip"
  proof -
    define st where "st = (helper_state u)\<lparr>userToken := init_userToken ip,
                                            clickAnalytics := init_clickAnalytics ip\<rparr>"
    have r: "helper_state (unsubscribe mw w) = st"
      "trace (unsubscribe mw w) = trace u @ [HelperSetState st, ScheduleSearch]"
      using restore_fields [of u ip] that u_frame by (simp_all add: unsub st_def)
    have e: "effects_since w (unsubscribe mw w)
        = (InsightsCall (callee_of (insightsClient mw)) c # d)
           @ [HelperSetState (helper_state (unsubscribe mw w)), ScheduleSearch]"
      using r d by (simp add: effects_since_def)
    have q: "filter is_notification (InsightsCall (callee_of (insightsClient mw)) c # d) = []"
      using d_quiet by simp
    have "userToken (helper_state (unsubscribe mw w)) = init_userToken ip"
      and "clickAnalytics (helper_state (unsubscribe mw w)) = init_clickAnalytics ip"
      by (simp_all add: r st_def)
    then show ?thesis using e q by blast
  qed
  have missing: "unsubscribe mw w = u \<and>
      filter is_notification (effects_since w (unsubscribe mw w)) = []"
    if "\<not> helper w \<or> initialParameters w = None"
  proof -
    have "restore_initialParameters u = u"
      using that u_frame restore_missing [of u] by simp
    then show ?thesis
      using d d_quiet by (simp add: unsub effects_since_def)
  qed
  have never: "helper_state (unsubscribe mw w) = helper_state w \<and>
      effects_since w (unsubscribe mw w) = [InsightsCall (callee_of (insightsClient mw)) c]"
    if "\<not> helper w"
  proof -
    have "unsubscribe mw w = u"
      using missing that by simp
    then show ?thesis
      using call_insights_unbound [OF that, of "insightsClient mw" c]
      by (simp add: u_def effects_since_def)
  qed
  show ?thesis
    using slot first both missing never unfolding u_def c_def by blast
qed

theorem conditional_teardown_restore_witness:
  "userToken (helper_state (unsubscribe (client_middleware True loaded_client None)
       (started_world (Some ''u1'') \<lparr>current_token = Some ''u1'', listening = True\<rparr>)))
     = Some ''u0'' \<and>
   clickAnalytics (helper_state (unsubscribe (client_middleware True loaded_client None)
       (started_world (Some ''u1'') \<lparr>current_token = Some ''u1'', listening = True\<rparr>)))
     = Some False \<and>
   helper_state (unsubscribe (client_middleware True loaded_client None)
       (fresh_world (Some ''app'', Some ''key'') u0_parameters
          \<lparr>current_token = None, listening = False\<rparr>)) = u0_parameters \<and>
   effects_since
       (fresh_world (Some ''app'', Some ''key'') u0_parameters
          \<lparr>current_token = None, listening = False\<rparr>)
       (unsubscribe (client_middleware True loaded_client None)
          (fresh_world (Some ''app'', Some ''key'') u0_parameters
             \<lparr>current_token = None, listening = False\<rparr>))
     = [InsightsCall ClientFn (OnUserTokenChange None None)]"
proof -
  let ?v = "started_world (Some ''u1'') \<lparr>current_token = Some ''u1'', listening = True\<rparr>"
  let ?w = "fresh_world (Some ''app'', Some ''key'') u0_parameters
              \<lparr>current_token = None, listening = False\<rparr>"
  let ?ip = "\<lparr>init_userToken = Some ''u0'', init_clickAnalytics = Some False\<rparr>"
  have v: "helper ?v \<and> initialParameters ?v = Some ?ip"
    by (simp add: started_world_def)
  have w: "\<not> helper ?w" "helper_state ?w = u0_parameters"
    by (simp_all add: fresh_world_def)
  have a: "userToken (helper_state (unsubscribe (client_middleware True loaded_client None) ?v))
             = init_userToken ?ip \<and>
           clickAnalytics (helper_state (unsubscribe (client_middleware True loaded_client None) ?v))
             = init_clickAnalytics ?ip"
    using v conditional_teardown_restore [of "client_middleware True loaded_client None" ?v ?ip]
    by blast
  have b: "helper_state (unsubscribe (client_middleware True loaded_client None) ?w)
             = helper_state ?w \<and>
           effects_since ?w (unsubscribe (client_middleware True loaded_client None) ?w)
             = [InsightsCall (callee_of (insightsClient (client_middleware True loaded_client None)))
                  (OnUserTokenChange None None)]"
    using w(1) conditional_teardown_restore [of "client_middleware True loaded_client None" ?w ?ip]
    by blast
  show ?thesis
    using a b w(2) by (simp add: callee_of_def)
qed

lemma started_disabled:
  assumes "insightsClient mw = Noop" and "\<not> hasInsightsClient mw"
  shows "helper_state (started mw w) = (helper_state w)\<lparr>clickAnalytics := Some True\<rparr>"
    and "effects_since w (started mw w)
      = [InsightsCall NoopFn (AddAlgoliaAgent ''insights-middleware''),
         HelperOverride ((helper_state w)\<lparr>clickAnalytics := Some True\<rparr>),
         ScheduleSearch]
        @ (if truthy (userTokenBeforeInit w)
           then [InsightsCall NoopFn (SetUserToken (userTokenBeforeInit w))]
           else if truthy (queuedUserToken w)
           then [InsightsCall NoopFn (SetUserToken (queuedUserToken w))]
           else [])
        @ [InsightsCall NoopFn (OnUserTokenChange (Some SetUserTokenToSearch) (Some True))]"
  using assms
  by (simp_all add: started_def Let_def call_insights_Noop forward_userToken_def
      apply_anonymousUserToken_def enable_clickAnalytics_def capture_initialParameters_def
      scheduleSearch_def overrideStateWithoutTriggeringChangeEvent_def effects_since_def)

text \<open>
  Claim C10 (disabled mode). When the \<^verbatim>\<open>insightsClient\<close> option is \<^verbatim>\<open>null\<close>, \<^verbatim>\<open>started()\<close>
  changes the session state in one way only, \<^verbatim>\<open>clickAnalytics\<close> becomes \<^verbatim>\<open>true\<close>: the
  \<^verbatim>\<open>userToken\<close> is as before, the single write is that override, every call on the client
  reaches \<^verbatim>\<open>noop\<close>, the listener is registered on \<^verbatim>\<open>noop\<close>, and no later call on it changes
  the session.
\<close>

theorem disabled_mode_frame:
  assumes "createInsightsMiddleware dev (Some p) = Inr mw"
    and "props_insightsClient p = Null"
  shows "helper_state (started mw w) = (helper_state w)\<lparr>clickAnalytics := Some True\<rparr> \<and>
         userToken (helper_state (started mw w)) = userToken (helper_state w) \<and>
         filter is_override (effects_since w (started mw w))
           = [HelperOverride ((helper_state w)\<lparr>clickAnalytics := Some True\<rparr>)] \<and>
         filter is_notification (effects_since w (started mw w)) = [] \<and>
         fst ` set (insights_calls (effects_since w (started mw w))) = {NoopFn} \<and>
         (NoopFn, OnUserTokenChange (Some SetUserTokenToSearch) (Some True))
           \<in> set (insights_calls (effects_since w (started mw w))) \<and>
         (\<forall>c w'. helper_state (call_insights (insightsClient mw) c (w' :: 'c world))
                  = helper_state w')"
proof -
  have mw: "insightsClient mw = Noop" "\<not> hasInsightsClient mw"
    using assms
    by (auto simp: createInsightsMiddleware_def props_or_empty_def split: client_option.splits)
  have "\<forall>c w'. helper_state (call_insights (insightsClient mw) c (w' :: 'c world))
                  = helper_state w'"
    by (simp add: mw call_insights_Noop)
  then show ?thesis
    by (simp add: started_disabled [OF mw])
qed

theorem disabled_mode_frame_witness:
  "helper_state (started (disabled_middleware True)
       ((fresh_world (Some ''app'', Some ''key'') u0_parameters ())
          \<lparr>anonymousUserToken := Some ''anonymous''\<rparr>))
     = \<lparr>userToken = Some ''u0'', clickAnalytics = Some True, other = []\<rparr>"
proof -
  have p: "props_insightsClient (null_props :: unit insights_props) = Null"
    by (simp add: null_props_def)
  show ?thesis
    using disabled_mode_frame [OF create_disabled_middleware p, of True
        "(fresh_world (Some ''app'', Some ''key'') u0_parameters ())
          \<lparr>anonymousUserToken := Some ''anonymous''\<rparr>"]
    by (simp add: fresh_world_def u0_parameters_def)
qed

end
